theory Spec2Isabelle
  imports Complex_Main
begin

section \<open>The damped, phase-lagged soil temperature field\<close>

text \<open>
  The two scripts \<^verbatim>\<open>soil_temperature_depth.py\<close> and \<^verbatim>\<open>Soil temperature profile.py\<close>
  compute the same array expression

  \<^verbatim>\<open>
  time_grid, depth_grid = np.meshgrid(time_points, depth_points)
  surface_temp_amplitude = 10
  surface_temp_mean = 25
  k = 0.005 * 3600
  P = 24
  z = -depth_grid
  decay_factor = np.exp(-z * np.sqrt(np.pi / (k * P)))
  phase_lag = -z * np.sqrt(np.pi / (k * P))
  soil_temperature = surface_temp_mean + surface_temp_amplitude * decay_factor
                     * np.sin(np.pi * (time_grid - 8) / 12 + phase_lag)
  \<close>

  and differ only in the grids (\<^verbatim>\<open>np.arange(0, 72, 0.25)\<close> with
  \<^verbatim>\<open>np.linspace(0, -50, 51)\<close>, against \<^verbatim>\<open>np.arange(0, 24, 0.25)\<close> with
  \<^verbatim>\<open>np.linspace(0, -50, 50)\<close>).

  The embedding keeps the expression as it is written. The variables the scripts assign
  (\<^verbatim>\<open>surface_temp_amplitude\<close>, \<^verbatim>\<open>surface_temp_mean\<close>, \<^verbatim>\<open>k\<close>, \<^verbatim>\<open>P\<close>, \<^verbatim>\<open>time_points\<close>,
  \<^verbatim>\<open>depth_points\<close>) are the arguments of the model; the literals \<^verbatim>\<open>8\<close> and \<^verbatim>\<open>12\<close> of
  the sine argument stay literals. Numbers are real numbers: the rounding and the range
  of float64 are not modelled. What real arithmetic cannot give is modelled as the
  program has it: Python's division raises \<^verbatim>\<open>ZeroDivisionError\<close> on a zero divisor,
  \<^verbatim>\<open>np.sqrt\<close> of a negative number is \<^verbatim>\<open>nan\<close>, and \<^verbatim>\<open>nan\<close> propagates through every
  arithmetic operation.
\<close>

subsection \<open>Python and numpy scalars\<close>

datatype error = ZeroDivisionError

datatype npfloat = NaN | Val real

definition py_truediv :: "real \<Rightarrow> real \<Rightarrow> error + real" where
  "py_truediv a b = (if b = 0 then Inl ZeroDivisionError else Inr (a / b))"

definition np_sqrt :: "real \<Rightarrow> npfloat" where
  "np_sqrt x = (if x < 0 then NaN else Val (sqrt x))"

fun np_exp :: "npfloat \<Rightarrow> npfloat" where
  "np_exp NaN = NaN"
| "np_exp (Val x) = Val (exp x)"

fun np_sin :: "npfloat \<Rightarrow> npfloat" where
  "np_sin NaN = NaN"
| "np_sin (Val x) = Val (sin x)"

fun np_mul :: "npfloat \<Rightarrow> npfloat \<Rightarrow> npfloat" where
  "np_mul (Val x) (Val y) = Val (x * y)"
| "np_mul _ _ = NaN"

fun np_add :: "npfloat \<Rightarrow> npfloat \<Rightarrow> npfloat" where
  "np_add (Val x) (Val y) = Val (x + y)"
| "np_add _ _ = NaN"

text \<open>
  \<^verbatim>\<open>np.arange(start, stop, step)\<close> for a positive step: the values
  \<^verbatim>\<open>start + i * step\<close> for \<^verbatim>\<open>i\<close> below \<^verbatim>\<open>ceil((stop - start) / step)\<close>.
\<close>

definition arange :: "real \<Rightarrow> real \<Rightarrow> real \<Rightarrow> real list" where
  "arange start stop step =
     map (\<lambda>i. start + real i * step) [0 ..< nat \<lceil>(stop - start) / step\<rceil>]"

subsection \<open>The field\<close>

record thermal_parameters =
  surface_temp_amplitude :: real
  surface_temp_mean :: real
  k :: real
  P :: real

text \<open>The values both scripts assign.\<close>

definition script_parameters :: thermal_parameters where
  "script_parameters =
     \<lparr>surface_temp_amplitude = 10, surface_temp_mean = 25, k = 0.005 * 3600, P = 24\<rparr>"

text \<open>\<^verbatim>\<open>z = -depth_grid\<close>, cell by cell.\<close>

definition z :: "real \<Rightarrow> real" where
  "z depth = - depth"

text \<open>
  The scalar \<^verbatim>\<open>np.sqrt(np.pi / (k * P))\<close>, which both \<^verbatim>\<open>decay_factor\<close> and
  \<^verbatim>\<open>phase_lag\<close> evaluate before any array is touched.
\<close>

definition sqrt_pi_kP :: "thermal_parameters \<Rightarrow> error + npfloat" where
  "sqrt_pi_kP p =
     (case py_truediv pi (k p * P p) of
        Inl e \<Rightarrow> Inl e
      | Inr q \<Rightarrow> Inr (np_sqrt q))"

text \<open>
  The arrays, one cell at a time: \<open>s\<close> is the scalar above, \<open>time\<close> and \<open>depth\<close> are the
  entries of \<^verbatim>\<open>time_grid\<close> and \<^verbatim>\<open>depth_grid\<close> at the cell.
\<close>

definition decay_factor :: "npfloat \<Rightarrow> real \<Rightarrow> npfloat" where
  "decay_factor s depth = np_exp (np_mul (Val (- z depth)) s)"

definition phase_lag :: "npfloat \<Rightarrow> real \<Rightarrow> npfloat" where
  "phase_lag s depth = np_mul (Val (- z depth)) s"


definition soil_temperature_cell ::
  "thermal_parameters \<Rightarrow> npfloat \<Rightarrow> real \<Rightarrow> real \<Rightarrow> npfloat" where
  "soil_temperature_cell p s time depth =
     np_add (Val (surface_temp_mean p))
       (np_mul (np_mul (Val (surface_temp_amplitude p)) (decay_factor s depth))
          (np_sin (np_add (Val (pi * (time - 8) / 12)) (phase_lag s depth))))"

text \<open>
  The whole array: \<^verbatim>\<open>np.meshgrid\<close> gives one row per depth and one column per time.
\<close>

definition soil_temperature ::
  "thermal_parameters \<Rightarrow> real list \<Rightarrow> real list \<Rightarrow> error + npfloat list list" where
  "soil_temperature p time_points depth_points =
     (case sqrt_pi_kP p of
        Inl e \<Rightarrow> Inl e
      | Inr s \<Rightarrow>
          Inr (map (\<lambda>depth. map (\<lambda>time. soil_temperature_cell p s time depth) time_points)
                 depth_points))"

subsection \<open>The closed form of the specification\<close>

text \<open>
  The reference the field is compared with, written from the specification's words:
  \<^verbatim>\<open>decay(z) = exp(-z * sqrt(pi / (diffusivity * period)))\<close>,
  \<^verbatim>\<open>phaseLag(z) = -z * sqrt(pi / (diffusivity * period))\<close>,
  \<^verbatim>\<open>temperature(z, t) = meanTemperature + amplitude * decay(z)
     * sin((pi * (t - phaseOffset) / (period/2)) + phaseLag(z))\<close>,
  and the surface forcing signal
  \<^verbatim>\<open>meanTemperature + amplitude * sin(pi * (t - phaseOffset) / (period/2))\<close>.
  The depth magnitude is \<open>- depth\<close>.
\<close>

definition spec_decay :: "real \<Rightarrow> real \<Rightarrow> real \<Rightarrow> real" where
  "spec_decay diffusivity period magnitude =
     exp (- magnitude * sqrt (pi / (diffusivity * period)))"

definition spec_phaseLag :: "real \<Rightarrow> real \<Rightarrow> real \<Rightarrow> real" where
  "spec_phaseLag diffusivity period magnitude =
     - magnitude * sqrt (pi / (diffusivity * period))"

definition spec_temperature ::
  "real \<Rightarrow> real \<Rightarrow> real \<Rightarrow> real \<Rightarrow> real \<Rightarrow> real \<Rightarrow> real \<Rightarrow> real" where
  "spec_temperature meanTemperature amplitude diffusivity period phaseOffset magnitude t =
     meanTemperature
       + amplitude * spec_decay diffusivity period magnitude
           * sin ((pi * (t - phaseOffset) / (period / 2))
                    + spec_phaseLag diffusivity period magnitude)"


subsection \<open>Vocabulary of the properties\<close>

text \<open>
  The peak-to-trough swing of a sampled row: its largest entry minus its smallest one.
\<close>

definition swing :: "real list \<Rightarrow> real" where
  "swing row = Max (set row) - Min (set row)"

text \<open>
  The same over all times: \<open>row\<close> gives the cell at every real time, \<open>S\<close> is the
  difference between the largest and the smallest value the row takes.
\<close>

definition peak_to_trough :: "(real \<Rightarrow> npfloat) \<Rightarrow> real \<Rightarrow> bool" where
  "peak_to_trough row S \<longleftrightarrow>
     (\<exists>hi lo t_hi t_lo. row t_hi = Val hi \<and> row t_lo = Val lo \<and>
        (\<forall>t. \<exists>x. row t = Val x \<and> lo \<le> x \<and> x \<le> hi) \<and> S = hi - lo)"


section \<open>Evaluating the model\<close>

subsection \<open>The scalar and the cells\<close>

lemma sqrt_pi_kP_valid:
  assumes "0 < k p * P p"
  shows "sqrt_pi_kP p = Inr (Val (sqrt (pi / (k p * P p))))"
proof -
  have "0 < pi / (k p * P p)" using assms by simp
  then have "\<not> pi / (k p * P p) < 0" by simp
  moreover have "k p * P p \<noteq> 0" using assms by linarith
  ultimately show ?thesis
    unfolding sqrt_pi_kP_def py_truediv_def np_sqrt_def by simp
qed



lemma decay_factor_Val: "decay_factor (Val w) depth = Val (exp (depth * w))"
  by (simp add: decay_factor_def z_def)

lemma phase_lag_Val: "phase_lag (Val w) depth = Val (depth * w)"
  by (simp add: phase_lag_def z_def)

lemma cell_Val:
  "soil_temperature_cell p (Val w) time depth =
     Val (surface_temp_mean p +
          surface_temp_amplitude p * exp (depth * w) * sin (pi * (time - 8) / 12 + depth * w))"
  by (simp add: soil_temperature_cell_def decay_factor_Val phase_lag_Val)



lemma script_product: "k script_parameters * P script_parameters = 432"
  by (simp add: script_parameters_def)

subsection \<open>The array\<close>

lemma field_valid:
  assumes "0 < k p * P p"
  shows "soil_temperature p time_points depth_points =
     Inr (map (\<lambda>depth. map (\<lambda>time.
            Val (surface_temp_mean p +
                 surface_temp_amplitude p * exp (depth * sqrt (pi / (k p * P p))) *
                 sin (pi * (time - 8) / 12 + depth * sqrt (pi / (k p * P p))))) time_points)
          depth_points)"
  by (simp add: soil_temperature_def sqrt_pi_kP_valid [OF assms] cell_Val)



subsection \<open>Sines at the quarter cycles\<close>




subsection \<open>The envelope of a damped sine\<close>

lemma envelope:
  fixes a e \<theta> m :: real
  assumes "0 \<le> a" and "0 \<le> e"
  shows "m - a * e \<le> m + a * e * sin \<theta> \<and> m + a * e * sin \<theta> \<le> m + a * e"
proof -
  have "\<bar>a * e * sin \<theta>\<bar> = (a * e) * \<bar>sin \<theta>\<bar>"
    using assms by (simp add: abs_mult)
  also have "\<dots> \<le> (a * e) * 1"
    using assms by (intro mult_left_mono) simp_all
  finally show ?thesis by (simp add: abs_le_iff)
qed


subsection \<open>Crest and trough of a row over all times\<close>




text \<open>The swing over all times is a function of the row.\<close>

lemma peak_to_trough_unique:
  assumes "peak_to_trough row S" and "peak_to_trough row S'"
  shows "S = S'"
proof -
  obtain hi lo t_hi t_lo where a: "row t_hi = Val hi" "row t_lo = Val lo"
      "\<And>t. \<exists>x. row t = Val x \<and> lo \<le> x \<and> x \<le> hi" "S = hi - lo"
    using assms(1) unfolding peak_to_trough_def by blast
  obtain hi' lo' t_hi' t_lo' where b: "row t_hi' = Val hi'" "row t_lo' = Val lo'"
      "\<And>t. \<exists>x. row t = Val x \<and> lo' \<le> x \<and> x \<le> hi'" "S' = hi' - lo'"
    using assms(2) unfolding peak_to_trough_def by blast
  have "hi \<le> hi'" using a(1) b(3) [of t_hi] by simp
  moreover have "hi' \<le> hi" using b(1) a(3) [of t_hi'] by simp
  moreover have "lo' \<le> lo" using a(2) b(3) [of t_lo] by simp
  moreover have "lo \<le> lo'" using b(2) a(3) [of t_lo'] by simp
  ultimately show ?thesis using a(4) b(4) by simp
qed

subsection \<open>Times of maximum\<close>






subsection \<open>The numbers of the scripts\<close>

lemma exp_minus_3: "exp (- 3 :: real) < 1 / 10"
proof -
  have "(3 / 2 :: real) \<le> exp (1 / 2)" using exp_ge_add_one_self [of "1 / 2 :: real"] by simp
  then have "(3 / 2 :: real) ^ 6 \<le> exp (1 / 2) ^ 6" by (intro power_mono) simp_all
  also have "exp (1 / 2 :: real) ^ 6 = exp 3" by (simp add: exp_of_nat_mult [symmetric])
  finally have "(10::real) < exp 3" by (simp add: power_divide)
  then have "inverse (exp (3::real)) < inverse 10"
    by (simp only: inverse_less_iff_less exp_gt_zero zero_less_numeral)
  then show ?thesis by (simp add: exp_minus)
qed

lemma script_wave: "3 / 50 \<le> sqrt (pi / 432)"
proof -
  have "(3 / 50) ^ 2 \<le> pi / 432" using pi_ge_two by (simp add: power2_eq_square)
  then have "sqrt ((3 / 50) ^ 2) \<le> sqrt (pi / 432)" by (simp only: real_sqrt_le_iff)
  then show ?thesis by simp
qed

lemma script_decay_50: "exp (- 50 * sqrt (pi / 432)) < 1 / 10"
proof -
  have "- 50 * sqrt (pi / 432) \<le> - 3" using script_wave by simp
  then have "exp (- 50 * sqrt (pi / 432)) \<le> exp (- 3 :: real)" by (simp only: exp_le_cancel_iff)
  then show ?thesis using exp_minus_3 by linarith
qed


lemma arange_day_length: "length (arange 0 24 0.25) = 96"
  by (simp add: arange_def)

lemma arange_day_14: "arange 0 24 0.25 ! 56 = 14"
  by (simp add: arange_def)

lemma arange_day_2: "arange 0 24 0.25 ! 8 = 2"
  by (simp add: arange_def)

section \<open>Properties\<close>

subsection \<open>C1: the field and the closed form\<close>

text \<open>
  C1 as stated, for every period: the cell at depth magnitude \<open>z\<close> and time \<open>t\<close> is
  \<open>spec_temperature\<close> at the parameters. The sine argument of the source divides by the
  literal 12 where the closed form divides by \<open>period / 2\<close>, so the two differ as soon as
  \<open>P\<close> is not 24: with \<open>P = 6\<close>, at the surface and \<open>t = 14\<close>, the source gives 35 and
  the closed form 25.
\<close>

theorem closed_form_counterexample:
  "soil_temperature (script_parameters\<lparr>P := 6\<rparr>) [14] [0] \<noteq>
     Inr [[Val (spec_temperature 25 10 18 6 8 0 14)]]"
proof -
  have a: "0 < k (script_parameters\<lparr>P := 6\<rparr>) * P (script_parameters\<lparr>P := 6\<rparr>)"
    by (simp add: script_parameters_def)
  have "soil_temperature (script_parameters\<lparr>P := 6\<rparr>) [14] [0] = Inr [[Val 35]]"
    by (simp add: field_valid [OF a]) (simp add: script_parameters_def)
  moreover have "spec_temperature 25 10 18 6 8 0 14 = 25"
    by (simp add: spec_temperature_def spec_decay_def spec_phaseLag_def)
  ultimately show ?thesis by simp
qed

text \<open>
  C1, amended: with the period 24 and the phase offset 8 that the source writes into the
  sine argument, and a positive diffusivity, every cell of the field is the closed form
  \<open>spec_temperature\<close> at depth magnitude \<open>- depth\<close> and time \<open>t\<close>, for every mean,
  amplitude, time domain and depth domain.
\<close>

theorem closed_form_at_daily_cycle:
  assumes "P p = 24" and "0 < k p"
  shows "soil_temperature p time_points depth_points =
     Inr (map (\<lambda>depth. map (\<lambda>time.
            Val (spec_temperature (surface_temp_mean p) (surface_temp_amplitude p)
                   (k p) (P p) 8 (- depth) time)) time_points) depth_points)"
proof -
  have pos: "0 < k p * P p" using assms by simp
  show ?thesis
    unfolding field_valid [OF pos]
    by (simp add: spec_temperature_def spec_decay_def spec_phaseLag_def assms(1))
qed

theorem closed_form_at_daily_cycle_witness:
  "soil_temperature script_parameters [14] [0] =
     Inr [[Val (spec_temperature 25 10 18 24 8 0 14)]]"
  using closed_form_at_daily_cycle [of script_parameters "[14]" "[0]"]
  by (simp add: script_parameters_def)

subsection \<open>C2: invalid inputs\<close>




subsection \<open>C3: the surface row\<close>




subsection \<open>C4: boundedness\<close>



subsection \<open>C5: attenuation with depth\<close>




subsection \<open>C6: the phase lag and the time of maximum\<close>



subsection \<open>C7: periodicity\<close>




subsection \<open>C8: the concrete scenario\<close>

text \<open>
  C8. With mean 25, amplitude 10, diffusivity 18, period 24, the depth domain
  \<open>[0, -10, -50]\<close> and the time domain \<open>[0, 24)\<close> in steps of 0.25: the time 14 is entry
  56 of the time domain, the surface cell there is 35 and is the largest of the surface
  row, whose swing is 20; the swing of the row at depth -50 is less than a tenth of it.
\<close>

theorem concrete_scenario:
  "\<exists>r0 r10 r50.
     soil_temperature script_parameters (arange 0 24 0.25) [0, - 10, - 50] =
       Inr [map Val r0, map Val r10, map Val r50] \<and>
     arange 0 24 0.25 ! 56 = 14 \<and> r0 ! 56 = 35 \<and> Max (set r0) = 35 \<and>
     swing r0 = 20 \<and> swing r50 < 0.1 * swing r0"
proof -
  define ts where "ts = arange 0 24 0.25"
  define w where "w = sqrt (pi / 432)"
  define row where
    "row = (\<lambda>d. map (\<lambda>t. 25 + 10 * exp (d * w) * sin (pi * (t - 8) / 12 + d * w)) ts)"
  have pos: "0 < k script_parameters * P script_parameters"
    by (simp add: script_product)
  have field: "soil_temperature script_parameters ts [0, - 10, - 50] =
      Inr [map Val (row 0), map Val (row (- 10)), map Val (row (- 50))]"
    unfolding field_valid [OF pos] script_product
    by (simp add: script_parameters_def row_def w_def o_def)
  have len: "length ts = 96" unfolding ts_def by (rule arange_day_length)
  have t14: "ts ! 56 = 14" unfolding ts_def by (rule arange_day_14)
  have t2: "ts ! 8 = 2" unfolding ts_def by (rule arange_day_2)
  have r14: "row 0 ! 56 = 35"
    using len t14 by (simp add: row_def)
  have r2: "row 0 ! 8 = 15"
    using len t2 by (simp add: row_def)
  have bound: "25 - 10 * exp (d * w) \<le> y \<and> y \<le> 25 + 10 * exp (d * w)"
    if "y \<in> set (row d)" for y d
  proof -
    have "y \<in> (\<lambda>t. 25 + 10 * exp (d * w) * sin (pi * (t - 8) / 12 + d * w)) ` set ts"
      using that by (simp add: row_def)
    then obtain t where "y = 25 + 10 * exp (d * w) * sin (pi * (t - 8) / 12 + d * w)"
      by (rule imageE)
    then show ?thesis
      using envelope [of 10 "exp (d * w)" 25 "pi * (t - 8) / 12 + d * w"] by simp
  qed
  have in14: "35 \<in> set (row 0)"
    using nth_mem [of 56 "row 0"] r14 len by (simp add: row_def)
  have in2: "15 \<in> set (row 0)"
    using nth_mem [of 8 "row 0"] r2 len by (simp add: row_def)
  have max0: "Max (set (row 0)) = 35"
  proof (rule Max_eqI)
    show "finite (set (row 0))" by simp
    show "y \<le> 35" if "y \<in> set (row 0)" for y using bound [OF that] by simp
    show "35 \<in> set (row 0)" by (rule in14)
  qed
  have min0: "Min (set (row 0)) = 15"
  proof (rule Min_eqI)
    show "finite (set (row 0))" by simp
    show "15 \<le> y" if "y \<in> set (row 0)" for y using bound [OF that] by simp
    show "15 \<in> set (row 0)" by (rule in2)
  qed
  have swing0: "swing (row 0) = 20" unfolding swing_def max0 min0 by simp
  have ne: "set (row (- 50)) \<noteq> {}" using len by (auto simp add: row_def)
  have "Max (set (row (- 50))) \<le> 25 + 10 * exp (- 50 * w)"
    using ne bound [of _ "- 50"] by (simp add: Max_le_iff)
  moreover have "25 - 10 * exp (- 50 * w) \<le> Min (set (row (- 50)))"
    using ne bound [of _ "- 50"] by (simp add: Min_ge_iff)
  ultimately have "swing (row (- 50)) \<le> 20 * exp (- 50 * w)"
    unfolding swing_def by simp
  also have "\<dots> < 20 * (1 / 10)"
    using script_decay_50 unfolding w_def by (intro mult_strict_left_mono) simp_all
  finally have swing50: "swing (row (- 50)) < 0.1 * swing (row 0)"
    unfolding swing0 by simp
  show ?thesis
    using field t14 r14 max0 swing0 swing50 unfolding ts_def by blast
qed

subsection \<open>C9: half a period later\<close>




subsection \<open>C10: no forcing\<close>



end
